theory Spec2Isabelle
  imports Main "HOL-Library.Word" "HOL-Library.AList"
begin

section \<open>JavaScript values\<close>

text \<open>
  A JavaScript string is a sequence of UTF-16 code units. \<open>ascii\<close> writes a literal.
\<close>

type_synonym jsstring = "16 word list"

definition ascii :: "string \<Rightarrow> jsstring" where
  "ascii s = map of_char s"

text \<open>
  \<open>String.prototype.trim\<close> strips the code units of WhiteSpace and LineTerminator
  (ECMA-262, 22.1.3.32) from both ends. All of them lie in the basic plane, so the
  stripping can be done on code units.
\<close>

definition white_space :: "16 word \<Rightarrow> bool" where
  "white_space c \<longleftrightarrow>
     c \<in> set [0x09, 0x0A, 0x0B, 0x0C, 0x0D, 0x20, 0xA0, 0x1680,
              0x2000, 0x2001, 0x2002, 0x2003, 0x2004, 0x2005, 0x2006, 0x2007,
              0x2008, 0x2009, 0x200A, 0x2028, 0x2029, 0x202F, 0x205F, 0x3000, 0xFEFF]"

definition trim :: "jsstring \<Rightarrow> jsstring" where
  "trim s = rev (dropWhile white_space (rev (dropWhile white_space s)))"

text \<open>
  The values that \<open>JSON.parse\<close> returns and \<open>JSON.stringify\<close> accepts. Numbers are
  the integers among the doubles (the identifiers and the counter of the model are
  integers). An object is the list of its properties in insertion order.
\<close>

datatype jsval =
    JNull
  | JBool bool
  | JNum int
  | JStr jsstring
  | JArr "jsval list"
  | JObj "(jsstring \<times> jsval) list"

text \<open>
  \<open>JSON.stringify\<close> and \<open>JSON.parse\<close> belong to the platform, not to the repository:
  they are a parameter of the embedding. \<open>JSON_parse\<close> gives \<open>None\<close> where
  \<open>JSON.parse\<close> throws SyntaxError.
\<close>

record JSON =
  JSON_stringify :: "jsval \<Rightarrow> jsstring"
  JSON_parse :: "jsstring \<Rightarrow> jsval option"

datatype error = QuotaExceededError | SyntaxError | TypeError

section \<open>The increment of a number\<close>

text \<open>
  A JavaScript number is an IEEE 754 double. The arithmetic of the source is
  \<open>this.nextId++\<close>: the sum with 1, rounded to the nearest double, a tie going to the
  even significand. \<open>ulp a\<close> is the distance between neighbouring doubles at the
  magnitude \<open>a\<close>: 1 below \<open>2 ^ 53 = 9007199254740992\<close>, 2 from there to \<open>2 ^ 54\<close>,
  and so on. The
  significand of \<open>a\<close> is then \<open>a div ulp a\<close>. (Magnitudes from \<open>2 ^ 1024\<close> on, where
  the double is infinite, are outside the model.)
\<close>

function ulp :: "int \<Rightarrow> int" where
  "ulp a = (if a < 9007199254740992 then 1 else 2 * ulp (a div 2))"
  by pat_completeness auto
termination
  by (relation "measure nat") auto

declare ulp.simps [simp del]

definition double_round :: "int \<Rightarrow> int" where
  "double_round x =
     (let a = \<bar>x\<bar>; u = ulp a; q = a div u; r = a mod u;
          k = (if 2 * r < u \<or> (2 * r = u \<and> even q) then q else q + 1)
      in sgn x * (k * u))"

definition js_incr :: "int \<Rightarrow> int" where
  "js_incr n = double_round (n + 1)"

section \<open>The Web Storage object\<close>

text \<open>
  \<open>localStorage\<close>: an ordered list of key/value pairs of strings. \<open>setItem\<close> throws
  QuotaExceededError when the new value cannot be stored; the quota counts the code
  units of all keys and values, and \<open>None\<close> is a store without a limit.
\<close>

record Storage =
  entries :: "(jsstring \<times> jsstring) list"
  quota :: "nat option"

definition usage :: "(jsstring \<times> jsstring) list \<Rightarrow> nat" where
  "usage es = sum_list (map (\<lambda>(k, v). length k + length v) es)"

definition getItem :: "Storage \<Rightarrow> jsstring \<Rightarrow> jsstring option" where
  "getItem S k = map_of (entries S) k"

definition setItem :: "Storage \<Rightarrow> jsstring \<Rightarrow> jsstring \<Rightarrow> error + Storage" where
  "setItem S k v =
     (let es = AList.update k v (entries S) in
      case quota S of
        None \<Rightarrow> Inr (S\<lparr>entries := es\<rparr>)
      | Some q \<Rightarrow> if q < usage es then Inl QuotaExceededError else Inr (S\<lparr>entries := es\<rparr>))"

definition removeItem :: "Storage \<Rightarrow> jsstring \<Rightarrow> Storage" where
  "removeItem S k = S\<lparr>entries := AList.delete k (entries S)\<rparr>"

section \<open>StorageService (src/services/storage-service.js)\<close>

record StorageService =
  prefix :: jsstring
  storage :: Storage

text \<open>\<open>constructor(prefix = 'todo-', storage = localStorage)\<close>\<close>

definition StorageService_new :: "jsstring \<Rightarrow> Storage \<Rightarrow> StorageService" where
  "StorageService_new p S = \<lparr>prefix = p, storage = S\<rparr>"

text \<open>
  \<open>save(key, data)\<close>: the \<open>catch\<close> logs the error of \<open>setItem\<close> and returns; the
  store is then as it was. (The console is not part of the model.)
\<close>

definition StorageService_save ::
  "JSON \<Rightarrow> StorageService \<Rightarrow> jsstring \<Rightarrow> jsval \<Rightarrow> StorageService" where
  "StorageService_save J svc key data =
     (case setItem (storage svc) (prefix svc @ key) (JSON_stringify J data) of
        Inl e \<Rightarrow> svc
      | Inr S \<Rightarrow> svc\<lparr>storage := S\<rparr>)"

text \<open>
  \<open>load(key, defaultValue)\<close>: \<open>item ? JSON.parse(item) : defaultValue\<close>. \<open>getItem\<close>
  gives \<open>null\<close> for an absent key; \<open>null\<close> and the empty string are the falsy items.
  The \<open>catch\<close> turns the SyntaxError of \<open>JSON.parse\<close> into \<open>defaultValue\<close>.
\<close>

definition StorageService_load ::
  "JSON \<Rightarrow> StorageService \<Rightarrow> jsstring \<Rightarrow> jsval \<Rightarrow> jsval" where
  "StorageService_load J svc key defaultValue =
     (case getItem (storage svc) (prefix svc @ key) of
        None \<Rightarrow> defaultValue
      | Some item \<Rightarrow>
          if item \<noteq> [] then
            (case JSON_parse J item of
               Some v \<Rightarrow> v
             | None \<Rightarrow> defaultValue)
          else defaultValue)"

definition StorageService_remove :: "StorageService \<Rightarrow> jsstring \<Rightarrow> StorageService" where
  "StorageService_remove svc key = svc\<lparr>storage := removeItem (storage svc) (prefix svc @ key)\<rparr>"

section \<open>TodoModel (src/models/todo-model.js, as given in src/tests/todo-model.test.js)\<close>

text \<open>
  The \<open>Todo\<close> typedef: \<open>{id: number, text: string, completed: boolean, createdAt: string}\<close>.
\<close>

record Todo =
  todo_id :: int
  todo_text :: jsstring
  completed :: bool
  createdAt :: jsstring

text \<open>
  A subscriber is a zero-argument callback; the model only stores it and calls it. It is
  a handle here, and every operation returns, beside the new model, the handles it
  called, in the order of the calls.
\<close>

type_synonym listener = nat

record TodoModel =
  svc :: StorageService
  todos :: "Todo list"
  listeners :: "listener list"
  nextId :: int

text \<open>The object that \<open>addTodo\<close> builds for a todo, and that \<open>JSON.stringify\<close> sees.\<close>

definition todo_to_js :: "Todo \<Rightarrow> jsval" where
  "todo_to_js t =
     JObj [(ascii ''id'', JNum (todo_id t)), (ascii ''text'', JStr (todo_text t)),
           (ascii ''completed'', JBool (completed t)), (ascii ''createdAt'', JStr (createdAt t))]"

definition todos_to_js :: "Todo list \<Rightarrow> jsval" where
  "todos_to_js ts = JArr (map todo_to_js ts)"

text \<open>
  The fields of an instance as the constructor leaves them: \<open>this.todos\<close> and
  \<open>this.nextId\<close> hold what \<open>load\<close> returned, of whatever shape, and nothing is checked
  or thrown. The constructor calls no listener, which is the empty list beside the
  instance.
\<close>

record Instance =
  inst_storage :: StorageService
  inst_todos :: jsval
  inst_listeners :: "listener list"
  inst_nextId :: jsval

definition TodoModel_new :: "JSON \<Rightarrow> StorageService \<Rightarrow> Instance \<times> listener list" where
  "TodoModel_new J storageService =
     (\<lparr>inst_storage = storageService,
       inst_todos = StorageService_load J storageService (ascii ''items'') (JArr []),
       inst_listeners = [],
       inst_nextId = StorageService_load J storageService (ascii ''nextId'') (JNum 1)\<rparr>,
      [])"

text \<open>
  The operations are embedded on the record \<open>TodoModel\<close>: the instances whose
  \<open>todos\<close> is an array of todos as \<open>addTodo\<close> builds them and whose \<open>nextId\<close> is an
  integer. \<open>instance_of m\<close> is the instance that the record \<open>m\<close> stands for.
\<close>

definition instance_of :: "TodoModel \<Rightarrow> Instance" where
  "instance_of m =
     \<lparr>inst_storage = svc m, inst_todos = todos_to_js (todos m),
      inst_listeners = listeners m, inst_nextId = JNum (nextId m)\<rparr>"

definition subscribe :: "listener \<Rightarrow> TodoModel \<Rightarrow> TodoModel" where
  "subscribe listener m = m\<lparr>listeners := listeners m @ [listener]\<rparr>"

text \<open>\<open>notify()\<close> calls every listener, in the order of subscription.\<close>

definition notify :: "TodoModel \<Rightarrow> listener list" where
  "notify m = listeners m"

definition TodoModel_save :: "JSON \<Rightarrow> TodoModel \<Rightarrow> TodoModel" where
  "TodoModel_save J m =
     (let s1 = StorageService_save J (svc m) (ascii ''items'') (todos_to_js (todos m));
          s2 = StorageService_save J s1 (ascii ''nextId'') (JNum (nextId m))
      in m\<lparr>svc := s2\<rparr>)"

text \<open>
  \<open>addTodo(text)\<close>; \<open>now\<close> is the value of \<open>new Date().toISOString()\<close> at the call.
  \<open>!text\<close> holds of the empty string. \<open>id: this.nextId++\<close> gives the todo the old
  value of the counter and leaves the incremented double in the field.
\<close>

definition addTodo :: "JSON \<Rightarrow> jsstring \<Rightarrow> jsstring \<Rightarrow> TodoModel \<Rightarrow> TodoModel \<times> listener list" where
  "addTodo J now text m =
     (if text = [] \<or> trim text = [] then (m, [])
      else
        let todo = \<lparr>todo_id = nextId m, todo_text = trim text, completed = False,
                    createdAt = now\<rparr>;
            m1 = m\<lparr>nextId := js_incr (nextId m)\<rparr>;
            m2 = m1\<lparr>todos := todos m1 @ [todo]\<rparr>;
            m3 = TodoModel_save J m2
        in (m3, notify m3))"

text \<open>
  \<open>find\<close> returns the first todo with the id, and the assignment changes that object,
  which stays where it is in the array.
\<close>

fun assign_first :: "('a \<Rightarrow> bool) \<Rightarrow> ('a \<Rightarrow> 'a) \<Rightarrow> 'a list \<Rightarrow> 'a list" where
  "assign_first P f [] = []"
| "assign_first P f (x # xs) = (if P x then f x # xs else x # assign_first P f xs)"

definition toggleComplete :: "JSON \<Rightarrow> int \<Rightarrow> TodoModel \<Rightarrow> TodoModel \<times> listener list" where
  "toggleComplete J i m =
     (case find (\<lambda>t. todo_id t = i) (todos m) of
        Some todo \<Rightarrow>
          let m1 = m\<lparr>todos := assign_first (\<lambda>t. todo_id t = i)
                                 (\<lambda>t. t\<lparr>completed := \<not> completed t\<rparr>) (todos m)\<rparr>;
              m2 = TodoModel_save J m1
          in (m2, notify m2)
      | None \<Rightarrow> (m, []))"

definition deleteTodo :: "JSON \<Rightarrow> int \<Rightarrow> TodoModel \<Rightarrow> TodoModel \<times> listener list" where
  "deleteTodo J i m =
     (let m1 = m\<lparr>todos := filter (\<lambda>t. todo_id t \<noteq> i) (todos m)\<rparr>;
          m2 = TodoModel_save J m1
      in (m2, notify m2))"

definition updateTodo :: "JSON \<Rightarrow> int \<Rightarrow> jsstring \<Rightarrow> TodoModel \<Rightarrow> TodoModel \<times> listener list" where
  "updateTodo J i newText m =
     (case find (\<lambda>t. todo_id t = i) (todos m) of
        Some todo \<Rightarrow>
          if newText \<noteq> [] \<and> trim newText \<noteq> [] then
            let m1 = m\<lparr>todos := assign_first (\<lambda>t. todo_id t = i)
                                   (\<lambda>t. t\<lparr>todo_text := trim newText\<rparr>) (todos m)\<rparr>;
                m2 = TodoModel_save J m1
            in (m2, notify m2)
          else (m, [])
      | None \<Rightarrow> (m, []))"

definition clearCompleted :: "JSON \<Rightarrow> TodoModel \<Rightarrow> TodoModel \<times> listener list" where
  "clearCompleted J m =
     (let m1 = m\<lparr>todos := filter (\<lambda>t. \<not> completed t) (todos m)\<rparr>;
          m2 = TodoModel_save J m1
      in (m2, notify m2))"

definition clearAll :: "JSON \<Rightarrow> TodoModel \<Rightarrow> TodoModel \<times> listener list" where
  "clearAll J m =
     (let m1 = m\<lparr>todos := []\<rparr>;
          m2 = TodoModel_save J m1
      in (m2, notify m2))"

definition activeCount :: "TodoModel \<Rightarrow> nat" where
  "activeCount m = length (filter (\<lambda>t. \<not> completed t) (todos m))"

definition completedCount :: "TodoModel \<Rightarrow> nat" where
  "completedCount m = length (filter (\<lambda>t. completed t) (todos m))"

section \<open>Sequences of calls\<close>

text \<open>The calls a client can make on one instance, and a run of them in order.\<close>

datatype call =
    AddTodo jsstring jsstring
  | ToggleComplete int
  | DeleteTodo int
  | UpdateTodo int jsstring
  | ClearCompleted
  | ClearAll
  | Subscribe listener

fun step :: "JSON \<Rightarrow> call \<Rightarrow> TodoModel \<Rightarrow> TodoModel \<times> listener list" where
  "step J (AddTodo now text) m = addTodo J now text m"
| "step J (ToggleComplete i) m = toggleComplete J i m"
| "step J (DeleteTodo i) m = deleteTodo J i m"
| "step J (UpdateTodo i newText) m = updateTodo J i newText m"
| "step J ClearCompleted m = clearCompleted J m"
| "step J ClearAll m = clearAll J m"
| "step J (Subscribe l) m = (subscribe l m, [])"

fun run :: "JSON \<Rightarrow> call list \<Rightarrow> TodoModel \<Rightarrow> TodoModel" where
  "run J [] m = m"
| "run J (c # cs) m = run J cs (fst (step J c m))"

text \<open>
  The ids that a call issues: those of the todos that an \<open>addTodo\<close> put behind the ones
  that were there. \<open>issued\<close> collects them along a run.
\<close>

fun issued_by :: "JSON \<Rightarrow> call \<Rightarrow> TodoModel \<Rightarrow> int list" where
  "issued_by J (AddTodo now text) m =
     map todo_id (drop (length (todos m)) (todos (fst (addTodo J now text m))))"
| "issued_by J _ m = []"

fun issued :: "JSON \<Rightarrow> call list \<Rightarrow> TodoModel \<Rightarrow> int list" where
  "issued J [] m = []"
| "issued J (c # cs) m = issued_by J c m @ issued J cs (fst (step J c m))"

text \<open>The store holds the collection and the counter of the model under the two keys.\<close>

definition persisted :: "JSON \<Rightarrow> TodoModel \<Rightarrow> bool" where
  "persisted J m \<longleftrightarrow>
     getItem (storage (svc m)) (prefix (svc m) @ ascii ''items'')
       = Some (JSON_stringify J (todos_to_js (todos m)))
     \<and> getItem (storage (svc m)) (prefix (svc m) @ ascii ''nextId'')
       = Some (JSON_stringify J (JNum (nextId m)))"

text \<open>The store takes the two writes of \<open>save()\<close>, neither ends in QuotaExceededError.\<close>

definition accepts :: "JSON \<Rightarrow> TodoModel \<Rightarrow> bool" where
  "accepts J m \<longleftrightarrow>
     (case setItem (storage (svc m)) (prefix (svc m) @ ascii ''items'')
             (JSON_stringify J (todos_to_js (todos m))) of
        Inl e \<Rightarrow> False
      | Inr S \<Rightarrow>
          (case setItem S (prefix (svc m) @ ascii ''nextId'')
                  (JSON_stringify J (JNum (nextId m))) of
             Inl e \<Rightarrow> False
           | Inr S' \<Rightarrow> True))"

text \<open>\<open>JSON.parse\<close> gives back the value that \<open>JSON.stringify\<close> has written.\<close>

definition round_trips :: "JSON \<Rightarrow> jsval \<Rightarrow> bool" where
  "round_trips J v \<longleftrightarrow>
     JSON_stringify J v \<noteq> [] \<and> JSON_parse J (JSON_stringify J v) = Some v"

section \<open>TodoApp: the import of a file (src/components/todo-app.js)\<close>

text \<open>
  \<open>this.model.importTasks(importedTasks)\<close>: class \<open>TodoModel\<close> declares the members
  \<open>subscribe\<close>, \<open>notify\<close>, \<open>addTodo\<close>, \<open>toggleComplete\<close>, \<open>deleteTodo\<close>,
  \<open>updateTodo\<close>, \<open>clearCompleted\<close>, \<open>clearAll\<close>, \<open>activeCount\<close>,
  \<open>completedCount\<close> and \<open>save\<close>, and no \<open>importTasks\<close>. The property is
  \<open>undefined\<close>, and calling it throws TypeError.
\<close>

definition call_importTasks :: "jsval \<Rightarrow> TodoModel \<Rightarrow> error + TodoModel \<times> listener list" where
  "call_importTasks importedTasks m = Inl TypeError"

datatype alert = Imported | ImportFailed

text \<open>
  The \<open>onload\<close> handler of \<open>_handleFileImport\<close>: \<open>result\<close> is the text of the file,
  \<open>confirmed\<close> the answer to the dialog. Every exception in the \<open>try\<close> ends in the
  alert of the \<open>catch\<close>.
\<close>

definition onload ::
  "JSON \<Rightarrow> bool \<Rightarrow> jsstring \<Rightarrow> TodoModel \<Rightarrow> (TodoModel \<times> listener list) \<times> alert option" where
  "onload J confirmed result m =
     (case JSON_parse J result of
        None \<Rightarrow> ((m, []), Some ImportFailed)
      | Some importedTasks \<Rightarrow>
          if confirmed then
            (case call_importTasks importedTasks m of
               Inl e \<Rightarrow> ((m, []), Some ImportFailed)
             | Inr r \<Rightarrow> (r, Some Imported))
          else ((m, []), None))"

section \<open>A JSON codec for the platform parameter\<close>

text \<open>
  A serialiser for compact JSON and a parser for JSON without fractions and exponents.
  It stands for the platform's \<open>JSON\<close> object where a concrete one is needed.
\<close>

function digits :: "int \<Rightarrow> jsstring" where
  "digits n = (if n < 10 then [of_int (48 + n)] else digits (n div 10) @ [of_int (48 + n mod 10)])"
  by pat_completeness auto
termination
  by (relation "measure nat") auto

declare digits.simps [simp del]

definition show_int :: "int \<Rightarrow> jsstring" where
  "show_int i = (if i < 0 then 0x2D # digits (- i) else digits i)"

definition hex_digit :: "nat \<Rightarrow> 16 word" where
  "hex_digit d = (if d < 10 then of_nat (48 + d) else of_nat (87 + d))"

definition escape :: "16 word \<Rightarrow> jsstring" where
  "escape c =
     (if c = 0x22 then [0x5C, 0x22]
      else if c = 0x5C then [0x5C, 0x5C]
      else if c = 0x08 then [0x5C, 0x62]
      else if c = 0x0C then [0x5C, 0x66]
      else if c = 0x0A then [0x5C, 0x6E]
      else if c = 0x0D then [0x5C, 0x72]
      else if c = 0x09 then [0x5C, 0x74]
      else if c < 0x20 then
        [0x5C, 0x75, 0x30, 0x30, hex_digit (unat c div 16), hex_digit (unat c mod 16)]
      else [c])"

definition quote :: "jsstring \<Rightarrow> jsstring" where
  "quote s = 0x22 # concat (map escape s) @ [0x22]"

fun commas :: "jsstring list \<Rightarrow> jsstring" where
  "commas [] = []"
| "commas [x] = x"
| "commas (x # xs) = x @ 0x2C # commas xs"

fun ref_stringify :: "jsval \<Rightarrow> jsstring" where
  "ref_stringify JNull = ascii ''null''"
| "ref_stringify (JBool b) = (if b then ascii ''true'' else ascii ''false'')"
| "ref_stringify (JNum n) = show_int n"
| "ref_stringify (JStr s) = quote s"
| "ref_stringify (JArr vs) = 0x5B # commas (map ref_stringify vs) @ [0x5D]"
| "ref_stringify (JObj ms) =
     0x7B # commas (map (\<lambda>kv. quote (fst kv) @ 0x3A # ref_stringify (snd kv)) ms) @ [0x7D]"

definition is_digit :: "16 word \<Rightarrow> bool" where
  "is_digit c \<longleftrightarrow> 0x30 \<le> c \<and> c \<le> 0x39"

definition hex_val :: "16 word \<Rightarrow> nat option" where
  "hex_val c =
     (if 0x30 \<le> c \<and> c \<le> 0x39 then Some (unat c - 48)
      else if 0x61 \<le> c \<and> c \<le> 0x66 then Some (unat c - 87)
      else if 0x41 \<le> c \<and> c \<le> 0x46 then Some (unat c - 55)
      else None)"

fun hex4 :: "jsstring \<Rightarrow> 16 word option" where
  "hex4 [a, b, c, d] =
     (case (hex_val a, hex_val b, hex_val c, hex_val d) of
        (Some w, Some x, Some y, Some z) \<Rightarrow> Some (of_nat (((w * 16 + x) * 16 + y) * 16 + z))
      | _ \<Rightarrow> None)"
| "hex4 _ = None"

definition unescape :: "16 word \<Rightarrow> 16 word option" where
  "unescape e =
     (if e = 0x22 \<or> e = 0x5C \<or> e = 0x2F then Some e
      else if e = 0x62 then Some 0x08
      else if e = 0x66 then Some 0x0C
      else if e = 0x6E then Some 0x0A
      else if e = 0x72 then Some 0x0D
      else if e = 0x74 then Some 0x09
      else None)"

text \<open>The characters of a string after its opening quote; \<open>acc\<close> is what was read, reversed.\<close>

fun parse_chars :: "jsstring \<Rightarrow> jsstring \<Rightarrow> (jsstring \<times> jsstring) option" where
  "parse_chars acc [] = None"
| "parse_chars acc (c # cs) =
     (if c = 0x22 then Some (rev acc, cs)
      else if c = 0x5C then
        (case cs of
           [] \<Rightarrow> None
         | e # r \<Rightarrow>
             if e = 0x75 then
               (case hex4 (take 4 r) of
                  None \<Rightarrow> None
                | Some h \<Rightarrow> parse_chars (h # acc) (drop 4 r))
             else
               (case unescape e of
                  None \<Rightarrow> None
                | Some u \<Rightarrow> parse_chars (u # acc) r))
      else if c < 0x20 then None
      else parse_chars (c # acc) cs)"

definition digits_val :: "jsstring \<Rightarrow> int" where
  "digits_val ds = foldl (\<lambda>n d. 10 * n + (uint d - 48)) 0 ds"

text \<open>\<open>0\<close> or a digit sequence without a leading zero; no fraction and no exponent.\<close>

definition parse_nat :: "jsstring \<Rightarrow> (int \<times> jsstring) option" where
  "parse_nat cs =
     (let ds = takeWhile is_digit cs; r = dropWhile is_digit cs in
      if ds = [] \<or> (hd ds = 0x30 \<and> length ds \<noteq> 1) then None
      else if r \<noteq> [] \<and> hd r \<in> set [0x2E, 0x65, 0x45] then None
      else Some (digits_val ds, r))"

definition json_space :: "16 word \<Rightarrow> bool" where
  "json_space c \<longleftrightarrow> c \<in> set [0x20, 0x09, 0x0A, 0x0D]"

definition starts :: "string \<Rightarrow> jsstring \<Rightarrow> bool" where
  "starts lit cs \<longleftrightarrow> take (length lit) cs = ascii lit"

fun parse_value :: "nat \<Rightarrow> jsstring \<Rightarrow> (jsval \<times> jsstring) option"
  and parse_elements :: "nat \<Rightarrow> jsval list \<Rightarrow> jsstring \<Rightarrow> (jsval list \<times> jsstring) option"
  and parse_members ::
    "nat \<Rightarrow> (jsstring \<times> jsval) list \<Rightarrow> jsstring \<Rightarrow> ((jsstring \<times> jsval) list \<times> jsstring) option"
where
  "parse_value 0 cs = None"
| "parse_value (Suc n) cs =
     (case dropWhile json_space cs of
        [] \<Rightarrow> None
      | c # r \<Rightarrow>
          if c = 0x5B then
            (case dropWhile json_space r of
               [] \<Rightarrow> None
             | d # r' \<Rightarrow>
                 if d = 0x5D then Some (JArr [], r')
                 else map_option (\<lambda>(vs, r''). (JArr vs, r'')) (parse_elements n [] r))
          else if c = 0x7B then
            (case dropWhile json_space r of
               [] \<Rightarrow> None
             | d # r' \<Rightarrow>
                 if d = 0x7D then Some (JObj [], r')
                 else map_option (\<lambda>(ms, r''). (JObj ms, r'')) (parse_members n [] r))
          else if c = 0x22 then map_option (\<lambda>(s, r'). (JStr s, r')) (parse_chars [] r)
          else if starts ''null'' (c # r) then Some (JNull, drop 4 (c # r))
          else if starts ''true'' (c # r) then Some (JBool True, drop 4 (c # r))
          else if starts ''false'' (c # r) then Some (JBool False, drop 5 (c # r))
          else if c = 0x2D then map_option (\<lambda>(k, r'). (JNum (- k), r')) (parse_nat r)
          else map_option (\<lambda>(k, r'). (JNum k, r')) (parse_nat (c # r)))"
| "parse_elements 0 acc cs = None"
| "parse_elements (Suc n) acc cs =
     (case parse_value n cs of
        None \<Rightarrow> None
      | Some (v, r) \<Rightarrow>
          (case dropWhile json_space r of
             [] \<Rightarrow> None
           | c # r' \<Rightarrow>
               if c = 0x2C then parse_elements n (acc @ [v]) r'
               else if c = 0x5D then Some (acc @ [v], r')
               else None))"
| "parse_members 0 acc cs = None"
| "parse_members (Suc n) acc cs =
     (case dropWhile json_space cs of
        [] \<Rightarrow> None
      | q # r \<Rightarrow>
          if q \<noteq> 0x22 then None
          else
            (case parse_chars [] r of
               None \<Rightarrow> None
             | Some (k, r1) \<Rightarrow>
                 (case dropWhile json_space r1 of
                    [] \<Rightarrow> None
                  | c # r2 \<Rightarrow>
                      if c \<noteq> 0x3A then None
                      else
                        (case parse_value n r2 of
                           None \<Rightarrow> None
                         | Some (v, r3) \<Rightarrow>
                             (case dropWhile json_space r3 of
                                [] \<Rightarrow> None
                              | e # r4 \<Rightarrow>
                                  if e = 0x2C then parse_members n (acc @ [(k, v)]) r4
                                  else if e = 0x7D then Some (acc @ [(k, v)], r4)
                                  else None)))))"

text \<open>Every call consumes a code unit or ends, so twice the length is fuel enough.\<close>

definition ref_parse :: "jsstring \<Rightarrow> jsval option" where
  "ref_parse s =
     (case parse_value (2 * length s + 2) s of
        None \<Rightarrow> None
      | Some (v, r) \<Rightarrow> if dropWhile json_space r = [] then Some v else None)"

definition ref_JSON :: JSON where
  "ref_JSON = \<lparr>JSON_stringify = ref_stringify, JSON_parse = ref_parse\<rparr>"

section \<open>Concrete instances\<close>

text \<open>An empty store without a limit, the service of the application on it, and a new model.\<close>

definition empty_store :: Storage where
  "empty_store = \<lparr>entries = [], quota = None\<rparr>"

definition app_service :: StorageService where
  "app_service = StorageService_new (ascii ''todo-'') empty_store"

definition fresh_model :: TodoModel where
  "fresh_model = \<lparr>svc = app_service, todos = [], listeners = [], nextId = 1\<rparr>"

text \<open>
  A store with a counter, a collection that does not parse, and an empty string as theme.
\<close>

definition used_store :: Storage where
  "used_store =
     \<lparr>entries = [(ascii ''todo-nextId'', ascii ''7''), (ascii ''todo-items'', ascii ''[{''),
                 (ascii ''todo-theme'', [])],
      quota = None\<rparr>"

definition used_service :: StorageService where
  "used_service = StorageService_new (ascii ''todo-'') used_store"

text \<open>
  A store written by another program: a todo with its keys in another order and without
  \<open>createdAt\<close>, and \<open>null\<close> as the counter. A store whose collection is \<open>null\<close>.
\<close>

definition foreign_store :: Storage where
  "foreign_store =
     \<lparr>entries = [(ascii ''todo-items'', ascii ''[{\"text\":\"x\",\"completed\":false,\"id\":4}]''),
                 (ascii ''todo-nextId'', ascii ''null'')],
      quota = None\<rparr>"

definition foreign_service :: StorageService where
  "foreign_service = StorageService_new (ascii ''todo-'') foreign_store"

definition null_store :: Storage where
  "null_store = \<lparr>entries = [(ascii ''todo-items'', ascii ''null'')], quota = None\<rparr>"

definition null_service :: StorageService where
  "null_service = StorageService_new (ascii ''todo-'') null_store"

text \<open>A store whose counter is \<open>2 ^ 53\<close>, and the model on it.\<close>

definition big_store :: Storage where
  "big_store = \<lparr>entries = [(ascii ''todo-nextId'', ascii ''9007199254740992'')], quota = None\<rparr>"

definition big_service :: StorageService where
  "big_service = StorageService_new (ascii ''todo-'') big_store"

definition big_model :: TodoModel where
  "big_model = \<lparr>svc = big_service, todos = [], listeners = [], nextId = 9007199254740992\<rparr>"

text \<open>
  A store with the counter 9 and room for 77 code units: the collection with one todo
  fits, the counter 10 beside it does not.
\<close>

definition tight_store :: Storage where
  "tight_store =
     \<lparr>entries = [(ascii ''todo-items'', ascii ''[]''), (ascii ''todo-nextId'', ascii ''9'')],
      quota = Some 77\<rparr>"

definition tight_service :: StorageService where
  "tight_service = StorageService_new (ascii ''todo-'') tight_store"

definition tight_model :: TodoModel where
  "tight_model = \<lparr>svc = tight_service, todos = [], listeners = [], nextId = 9\<rparr>"

text \<open>A model with one subscriber and one todo.\<close>

definition watched_model :: TodoModel where
  "watched_model =
     run ref_JSON [Subscribe 7, AddTodo (ascii ''2025-11-05T10:00:00.000Z'') (ascii ''Test todo'')]
       fresh_model"

section \<open>addTodo\<close>

text \<open>
  C1. For every string \<open>text\<close>: when \<open>text\<close> trims to a non-empty string,
  \<open>addTodo(text)\<close> appends exactly one todo at the end of the sequence, with the trimmed
  text, \<open>completed = false\<close> and the id \<open>nextId\<close> had at the call; when \<open>text\<close> is
  empty or white space only, the call changes nothing (and calls no subscriber).
\<close>

theorem addTodo_appends:
  "(trim text \<noteq> [] \<longrightarrow>
      todos (fst (addTodo J now text m))
        = todos m @ [\<lparr>todo_id = nextId m, todo_text = trim text, completed = False,
                     createdAt = now\<rparr>])
   \<and> (trim text = [] \<longrightarrow> addTodo J now text m = (m, []))"
  by (auto simp: addTodo_def TodoModel_save_def Let_def trim_def)

theorem addTodo_appends_witness:
  "trim (ascii ''  Clean room  '') \<noteq> []
   \<and> todos (fst (addTodo ref_JSON (ascii ''2025-11-05T10:00:00.000Z'') (ascii ''  Clean room  '')
        fresh_model))
       = [\<lparr>todo_id = 1, todo_text = ascii ''Clean room'', completed = False,
           createdAt = ascii ''2025-11-05T10:00:00.000Z''\<rparr>]
   \<and> trim (ascii ''   '') = []
   \<and> addTodo ref_JSON (ascii ''2025-11-05T10:00:00.000Z'') (ascii ''   '') fresh_model
       = (fresh_model, [])"
  using addTodo_appends [of "ascii ''  Clean room  ''" ref_JSON "ascii ''2025-11-05T10:00:00.000Z''" fresh_model]
    addTodo_appends [of "ascii ''   ''" ref_JSON "ascii ''2025-11-05T10:00:00.000Z''" fresh_model]
  by (simp add: trim_def ascii_def white_space_def fresh_model_def)

section \<open>What save leaves alone\<close>

lemma todos_TodoModel_save: "todos (TodoModel_save J m) = todos m"
  by (simp add: TodoModel_save_def Let_def)

lemma nextId_TodoModel_save: "nextId (TodoModel_save J m) = nextId m"
  by (simp add: TodoModel_save_def Let_def)

lemma listeners_TodoModel_save: "listeners (TodoModel_save J m) = listeners m"
  by (simp add: TodoModel_save_def Let_def)

lemmas save_fields = todos_TodoModel_save nextId_TodoModel_save listeners_TodoModel_save

lemma find_None_iff_id: "find (\<lambda>t. todo_id t = i) ts = None \<longleftrightarrow> i \<notin> todo_id ` set ts"
  by (auto simp: find_None_iff)

section \<open>The counts\<close>

lemma count_partition:
  "length (filter (\<lambda>t. \<not> completed t) ts) + length (filter (\<lambda>t. completed t) ts) = length ts"
  by (induction ts) auto

text \<open>
  C7. After every operation of the model, \<open>activeCount + completedCount\<close> is the length
  of the task sequence: after one call, and after any run of calls.
\<close>

theorem counts_partition:
  "activeCount (fst (step J c m)) + completedCount (fst (step J c m))
     = length (todos (fst (step J c m)))
   \<and> activeCount (run J cs m) + completedCount (run J cs m) = length (todos (run J cs m))"
  by (simp add: activeCount_def completedCount_def count_partition)

section \<open>toggleComplete\<close>

lemma assign_first_nth:
  "find P xs \<noteq> None \<Longrightarrow>
     \<exists>k < length xs. P (xs ! k) \<and> (\<forall>j < k. \<not> P (xs ! j)) \<and> assign_first P f xs = xs[k := f (xs ! k)]"
proof (induction xs)
  case Nil
  then show ?case by simp
next
  case (Cons x xs)
  show ?case
  proof (cases "P x")
    case True
    then have "P ((x # xs) ! 0) \<and> (\<forall>j < 0. \<not> P ((x # xs) ! j))
        \<and> assign_first P f (x # xs) = (x # xs)[0 := f ((x # xs) ! 0)]"
      by simp
    then show ?thesis by blast
  next
    case False
    with Cons.prems have "find P xs \<noteq> None" by simp
    from Cons.IH [OF this] obtain k where k: "k < length xs" "P (xs ! k)"
      "\<forall>j < k. \<not> P (xs ! j)" "assign_first P f xs = xs[k := f (xs ! k)]"
      by blast
    have "\<forall>j < Suc k. \<not> P ((x # xs) ! j)"
      using False k(3) by (auto simp: nth_Cons split: nat.splits)
    with k False have "Suc k < length (x # xs) \<and> P ((x # xs) ! Suc k)
        \<and> (\<forall>j < Suc k. \<not> P ((x # xs) ! j))
        \<and> assign_first P f (x # xs) = (x # xs)[Suc k := f ((x # xs) ! Suc k)]"
      by simp
    then show ?thesis by blast
  qed
qed

text \<open>
  C8. For an id that occurs in the sequence, \<open>toggleComplete(id)\<close> replaces the first todo
  with that id, at its position \<open>k\<close>, by the same todo with \<open>completed\<close> negated: its
  id, text and \<open>createdAt\<close>, every other todo, the order and the length of the sequence,
  \<open>nextId\<close> and the subscribers are as before.
\<close>

theorem toggleComplete_frame:
  assumes "i \<in> todo_id ` set (todos m)"
  shows "\<exists>k < length (todos m).
           todo_id (todos m ! k) = i
           \<and> (\<forall>j < k. todo_id (todos m ! j) \<noteq> i)
           \<and> todos (fst (toggleComplete J i m))
               = (todos m)[k := (todos m ! k)\<lparr>completed := \<not> completed (todos m ! k)\<rparr>]
           \<and> nextId (fst (toggleComplete J i m)) = nextId m
           \<and> listeners (fst (toggleComplete J i m)) = listeners m"
proof -
  from assms have f: "find (\<lambda>t. todo_id t = i) (todos m) \<noteq> None"
    by (simp add: find_None_iff_id)
  then obtain t where t: "find (\<lambda>t. todo_id t = i) (todos m) = Some t" by blast
  have m': "fst (toggleComplete J i m)
      = TodoModel_save J (m\<lparr>todos := assign_first (\<lambda>t. todo_id t = i)
                                 (\<lambda>t. t\<lparr>completed := \<not> completed t\<rparr>) (todos m)\<rparr>)"
    by (simp add: toggleComplete_def t Let_def)
  from assign_first_nth [OF f, of "\<lambda>t. t\<lparr>completed := \<not> completed t\<rparr>"]
  show ?thesis unfolding m' by (simp add: save_fields)
qed

theorem toggleComplete_frame_witness:
  "2 \<in> todo_id ` set (todos (run ref_JSON
        [AddTodo (ascii ''t1'') (ascii ''A''), AddTodo (ascii ''t2'') (ascii ''B'')] fresh_model))
   \<and> todos (fst (toggleComplete ref_JSON 2 (run ref_JSON
        [AddTodo (ascii ''t1'') (ascii ''A''), AddTodo (ascii ''t2'') (ascii ''B'')] fresh_model)))
       = [\<lparr>todo_id = 1, todo_text = ascii ''A'', completed = False, createdAt = ascii ''t1''\<rparr>,
          \<lparr>todo_id = 2, todo_text = ascii ''B'', completed = True, createdAt = ascii ''t2''\<rparr>]
   \<and> nextId (fst (toggleComplete ref_JSON 2 (run ref_JSON
        [AddTodo (ascii ''t1'') (ascii ''A''), AddTodo (ascii ''t2'') (ascii ''B'')] fresh_model))) = 3"
proof -
  let ?m = "run ref_JSON
        [AddTodo (ascii ''t1'') (ascii ''A''), AddTodo (ascii ''t2'') (ascii ''B'')] fresh_model"
  have t: "todos ?m
      = [\<lparr>todo_id = 1, todo_text = ascii ''A'', completed = False, createdAt = ascii ''t1''\<rparr>,
         \<lparr>todo_id = 2, todo_text = ascii ''B'', completed = False, createdAt = ascii ''t2''\<rparr>]"
    by code_simp
  have n: "nextId ?m = 3" by code_simp
  have h: "2 \<in> todo_id ` set (todos ?m)" unfolding t by simp
  from toggleComplete_frame [OF h, of ref_JSON] obtain k where k: "k < length (todos ?m)"
    "todo_id (todos ?m ! k) = 2" "\<forall>j < k. todo_id (todos ?m ! j) \<noteq> 2"
    "todos (fst (toggleComplete ref_JSON 2 ?m))
       = (todos ?m)[k := (todos ?m ! k)\<lparr>completed := \<not> completed (todos ?m ! k)\<rparr>]"
    "nextId (fst (toggleComplete ref_JSON 2 ?m)) = nextId ?m"
    by blast
  from k(1,2) have "k = 1" unfolding t by (cases k) auto
  with k(4,5) h n show ?thesis unfolding t by simp
qed

section \<open>The increment below \<open>2 ^ 53\<close>\<close>

lemma ulp_small: "a < 9007199254740992 \<Longrightarrow> ulp a = 1"
  by (simp add: ulp.simps)

lemma ulp_2_53: "ulp 9007199254740992 = 2"
  by (simp add: ulp.simps [of 9007199254740992] ulp.simps [of 4503599627370496])

lemma double_round_exact:
  assumes "\<bar>x\<bar> \<le> 9007199254740992"
  shows "double_round x = x"
proof (cases "\<bar>x\<bar> < 9007199254740992")
  case True
  then have "ulp \<bar>x\<bar> = 1" by (rule ulp_small)
  then show ?thesis
    by (simp add: double_round_def Let_def mult_sgn_abs)
next
  case False
  with assms have a: "\<bar>x\<bar> = 9007199254740992" by simp
  have "double_round x = sgn x * 9007199254740992"
    by (simp add: double_round_def a ulp_2_53 Let_def)
  also have "\<dots> = sgn x * \<bar>x\<bar>" by (simp add: a)
  also have "\<dots> = x" by (rule mult_sgn_abs)
  finally show ?thesis .
qed

lemma js_incr_exact:
  assumes "- 9007199254740992 \<le> n" and "n < 9007199254740992"
  shows "js_incr n = n + 1"
proof -
  from assms have "\<bar>n + 1\<bar> \<le> 9007199254740992" by linarith
  then show ?thesis unfolding js_incr_def by (rule double_round_exact)
qed

section \<open>The identifiers\<close>

lemma issued_by_cases:
  "issued_by J c m = [] \<and> nextId (fst (step J c m)) = nextId m
   \<or> issued_by J c m = [nextId m] \<and> nextId (fst (step J c m)) = js_incr (nextId m)"
proof (cases c)
  case (AddTodo now s)
  then show ?thesis
    by (simp add: addTodo_def Let_def save_fields)
next
  case (ToggleComplete i)
  then show ?thesis
    by (simp add: toggleComplete_def Let_def save_fields split: option.splits)
next
  case (DeleteTodo i)
  then show ?thesis by (simp add: deleteTodo_def Let_def save_fields)
next
  case (UpdateTodo i newText)
  then show ?thesis
    by (simp add: updateTodo_def Let_def save_fields split: option.splits)
next
  case ClearCompleted
  then show ?thesis by (simp add: clearCompleted_def Let_def save_fields)
next
  case ClearAll
  then show ?thesis by (simp add: clearAll_def Let_def save_fields)
next
  case (Subscribe l)
  then show ?thesis by (simp add: subscribe_def)
qed

lemma issued_in_range:
  assumes "- 9007199254740992 \<le> nextId m"
    and "nextId m + int (length (issued J cs m)) \<le> 9007199254740992"
  shows "nextId (run J cs m) = nextId m + int (length (issued J cs m))
         \<and> sorted_wrt (<) (issued J cs m)
         \<and> (\<forall>i \<in> set (issued J cs m). nextId m \<le> i \<and> i < nextId (run J cs m))"
  using assms
proof (induction cs arbitrary: m)
  case Nil
  show ?case by simp
next
  case (Cons c cs)
  let ?m' = "fst (step J c m)"
  let ?k = "int (length (issued J cs ?m'))"
  from issued_by_cases [of J c m] show ?case
  proof
    assume a: "issued_by J c m = [] \<and> nextId ?m' = nextId m"
    with Cons.prems have "- 9007199254740992 \<le> nextId ?m'"
      and "nextId ?m' + ?k \<le> 9007199254740992"
      by simp_all
    from Cons.IH [OF this] a show ?thesis by auto
  next
    assume a: "issued_by J c m = [nextId m] \<and> nextId ?m' = js_incr (nextId m)"
    with Cons.prems(2) have b: "nextId m + 1 + ?k \<le> 9007199254740992" by simp
    then have "nextId m < 9007199254740992" by linarith
    with Cons.prems(1) have "js_incr (nextId m) = nextId m + 1" by (rule js_incr_exact)
    with a have n: "nextId ?m' = nextId m + 1" by simp
    with Cons.prems(1) b have "- 9007199254740992 \<le> nextId ?m'"
      and "nextId ?m' + ?k \<le> 9007199254740992"
      by simp_all
    from Cons.IH [OF this] a n show ?thesis
      by (auto simp: sorted_wrt_append)
  qed
qed

lemma items_key_neq: "p @ ascii ''items'' \<noteq> p @ ascii ''nextId''"
  by (simp add: ascii_def)

lemma setItem_Inr:
  "setItem S k v = Inr S' \<Longrightarrow> getItem S' = (getItem S)(k \<mapsto> v) \<and> quota S' = quota S"
  by (auto simp: setItem_def getItem_def update_conv' Let_def split: option.splits if_splits)

lemma accepts_persisted:
  assumes "accepts J m"
  shows "persisted J (TodoModel_save J m)"
proof -
  let ?k1 = "prefix (svc m) @ ascii ''items''" and ?k2 = "prefix (svc m) @ ascii ''nextId''"
  let ?v1 = "JSON_stringify J (todos_to_js (todos m))"
  let ?v2 = "JSON_stringify J (JNum (nextId m))"
  from assms obtain S1 S2 where s1: "setItem (storage (svc m)) ?k1 ?v1 = Inr S1"
    and s2: "setItem S1 ?k2 ?v2 = Inr S2"
    by (auto simp: accepts_def split: sum.splits)
  have g: "getItem S2 = ((getItem (storage (svc m)))(?k1 \<mapsto> ?v1))(?k2 \<mapsto> ?v2)"
    using setItem_Inr [OF s1] setItem_Inr [OF s2] by simp
  have "svc (TodoModel_save J m) = (svc m)\<lparr>storage := S2\<rparr>"
    by (simp add: TodoModel_save_def StorageService_save_def s1 s2 Let_def)
  then show ?thesis
    using g items_key_neq [of "prefix (svc m)"]
    by (simp add: persisted_def save_fields)
qed

lemma unlimited_accepts: "quota (storage (svc m)) = None \<Longrightarrow> accepts J m"
  by (simp add: accepts_def setItem_def Let_def)

lemma TodoModel_save_unlimited:
  assumes "quota (storage (svc m)) = None"
  shows "persisted J (TodoModel_save J m)"
    and "quota (storage (svc (TodoModel_save J m))) = None"
proof -
  show "persisted J (TodoModel_save J m)"
    using assms by (intro accepts_persisted unlimited_accepts)
  show "quota (storage (svc (TodoModel_save J m))) = None"
    using assms by (simp add: TodoModel_save_def StorageService_save_def setItem_def Let_def)
qed

lemma step_persisted:
  assumes "quota (storage (svc m)) = None"
  shows "fst (step J c m) = m \<or> (\<exists>l. c = Subscribe l) \<or> persisted J (fst (step J c m))"
proof (cases c)
  case (AddTodo now s)
  then show ?thesis
    using assms by (simp add: addTodo_def Let_def TodoModel_save_unlimited)
next
  case (ToggleComplete i)
  then show ?thesis
    using assms by (simp add: toggleComplete_def Let_def TodoModel_save_unlimited split: option.splits)
next
  case (DeleteTodo i)
  then show ?thesis using assms by (simp add: deleteTodo_def Let_def TodoModel_save_unlimited)
next
  case (UpdateTodo i newText)
  then show ?thesis
    using assms by (simp add: updateTodo_def Let_def TodoModel_save_unlimited split: option.splits)
next
  case ClearCompleted
  then show ?thesis using assms by (simp add: clearCompleted_def Let_def TodoModel_save_unlimited)
next
  case ClearAll
  then show ?thesis using assms by (simp add: clearAll_def Let_def TodoModel_save_unlimited)
next
  case (Subscribe l)
  then show ?thesis by simp
qed

lemma add_delete_add:
  assumes "- 9007199254740992 \<le> nextId m" and "nextId m < 9007199254740992"
    and "trim a \<noteq> []" and "trim b \<noteq> []"
  shows "issued J [AddTodo t1 a, DeleteTodo (nextId m), AddTodo t2 b] m = [nextId m, nextId m + 1]"
proof -
  have "a \<noteq> []" and "b \<noteq> []" using assms(3,4) by (auto simp: trim_def)
  then show ?thesis
    using assms by (simp add: addTodo_def deleteTodo_def Let_def save_fields js_incr_exact)
qed

text \<open>
  C2, as amended. The counter is a double: below \<open>2 ^ 53\<close> the increment is exact, at
  \<open>2 ^ 53\<close> it no longer changes the counter. Within one instance whose \<open>nextId\<close> is
  at least \<open>- 2 ^ 53\<close>, for every sequence of calls whose issued ids stay below
  \<open>2 ^ 53\<close>, the ids that \<open>addTodo\<close> issues are strictly increasing (so none
  repeats), whatever is deleted in between: add A, delete A, add B gives B the id of A
  plus one. \<open>nextId\<close> stays strictly greater than every id issued. \<open>save\<close> writes the
  collection and then the counter: when the store accepts the two writes it holds both
  afterwards, and on a store without a limit it does so after every call that changed
  the model other than \<open>subscribe\<close>.
\<close>

theorem ids_strictly_increase:
  "(- 9007199254740992 \<le> nextId m
      \<and> nextId m + int (length (issued J cs m)) \<le> 9007199254740992 \<longrightarrow>
        sorted_wrt (<) (issued J cs m)
        \<and> (\<forall>i \<in> set (issued J cs m). nextId m \<le> i \<and> i < nextId (run J cs m)))
   \<and> (- 9007199254740992 \<le> nextId m \<and> nextId m < 9007199254740992
        \<and> trim a \<noteq> [] \<and> trim b \<noteq> [] \<longrightarrow>
        issued J [AddTodo t1 a, DeleteTodo (nextId m), AddTodo t2 b] m = [nextId m, nextId m + 1])
   \<and> (accepts J m \<longrightarrow> persisted J (TodoModel_save J m))
   \<and> (quota (storage (svc m)) = None \<longrightarrow>
        fst (step J c m) = m \<or> (\<exists>l. c = Subscribe l) \<or> persisted J (fst (step J c m)))"
  using issued_in_range [of m J cs] add_delete_add [of m a b J t1 t2]
    accepts_persisted [of J m] step_persisted [of m J c]
  by blast

theorem ids_strictly_increase_witness:
  "issued ref_JSON [AddTodo (ascii ''t1'') (ascii ''A''), DeleteTodo 1, AddTodo (ascii ''t2'') (ascii ''B'')]
      fresh_model = [1, 2]
   \<and> nextId (run ref_JSON
        [AddTodo (ascii ''t1'') (ascii ''A''), DeleteTodo 1, AddTodo (ascii ''t2'') (ascii ''B'')]
        fresh_model) = 3
   \<and> accepts ref_JSON fresh_model
   \<and> persisted ref_JSON (TodoModel_save ref_JSON fresh_model)
   \<and> quota (storage (svc fresh_model)) = None
   \<and> persisted ref_JSON (fst (step ref_JSON (DeleteTodo 1) fresh_model))"
proof -
  let ?cs = "[AddTodo (ascii ''t1'') (ascii ''A''), DeleteTodo 1, AddTodo (ascii ''t2'') (ascii ''B'')]"
  have n: "nextId fresh_model = 1" by (simp add: fresh_model_def)
  have q: "quota (storage (svc fresh_model)) = None"
    by (simp add: fresh_model_def app_service_def StorageService_new_def empty_store_def)
  have a: "trim (ascii ''A'') \<noteq> []" and b: "trim (ascii ''B'') \<noteq> []"
    by (simp_all add: trim_def ascii_def white_space_def)
  have i: "issued ref_JSON ?cs fresh_model = [1, 2]" by code_simp
  have r: "nextId (run ref_JSON ?cs fresh_model) = 3" by code_simp
  have c: "accepts ref_JSON fresh_model" by code_simp
  have d: "fst (step ref_JSON (DeleteTodo 1) fresh_model) \<noteq> fresh_model" by code_simp
  from ids_strictly_increase [of fresh_model ref_JSON ?cs "ascii ''A''" "ascii ''B''"
      "ascii ''t1''" "ascii ''t2''" "DeleteTodo 1"] n q a b i r c d
  show ?thesis by (simp del: issued.simps run.simps)
qed

text \<open>
  The claim as it stands fails where the double is not exact and where the store refuses
  a write. On the store whose counter is \<open>2 ^ 53\<close> two adds issue the same id, and
  \<open>nextId\<close> is not greater than it; a counter of \<open>- 2 ^ 54\<close> does not move either.
  On the store with room for 77 code units, an add writes the collection with the todo 9
  and the write of the counter 10 is refused: the store keeps the counter 9.
\<close>

theorem ids_repeat_counterexample:
  "TodoModel_new ref_JSON big_service = (instance_of big_model, [])
   \<and> issued ref_JSON [AddTodo (ascii ''t1'') (ascii ''A''), AddTodo (ascii ''t2'') (ascii ''B'')]
        big_model = [9007199254740992, 9007199254740992]
   \<and> nextId (run ref_JSON [AddTodo (ascii ''t1'') (ascii ''A''), AddTodo (ascii ''t2'') (ascii ''B'')]
        big_model) = 9007199254740992
   \<and> issued ref_JSON [AddTodo (ascii ''t1'') (ascii ''A''), AddTodo (ascii ''t2'') (ascii ''B'')]
        (big_model\<lparr>nextId := - 18014398509481984\<rparr>) = [- 18014398509481984, - 18014398509481984]
   \<and> TodoModel_new ref_JSON tight_service = (instance_of tight_model, [])
   \<and> nextId (fst (addTodo ref_JSON (ascii ''t'') (ascii ''A'') tight_model)) = 10
   \<and> getItem (storage (svc (fst (addTodo ref_JSON (ascii ''t'') (ascii ''A'') tight_model))))
        (ascii ''todo-items'')
       = Some (ascii ''[{\"id\":9,\"text\":\"A\",\"completed\":false,\"createdAt\":\"t\"}]'')
   \<and> getItem (storage (svc (fst (addTodo ref_JSON (ascii ''t'') (ascii ''A'') tight_model))))
        (ascii ''todo-nextId'')
       = Some (ascii ''9'')"
  by code_simp

section \<open>The round trip through the store\<close>

lemma load_round_trip:
  assumes "getItem (storage s) (prefix s @ key) = Some (JSON_stringify J v)"
    and "round_trips J v"
  shows "StorageService_load J s key d = v"
  using assms by (simp add: StorageService_load_def round_trips_def)

lemma reload:
  assumes "persisted J m"
    and "round_trips J (todos_to_js (todos m))" and "round_trips J (JNum (nextId m))"
  shows "TodoModel_new J (svc m)
           = (instance_of \<lparr>svc = svc m, todos = todos m, listeners = [], nextId = nextId m\<rparr>, [])"
proof -
  have "StorageService_load J (svc m) (ascii ''items'') (JArr []) = todos_to_js (todos m)"
    using assms(1,2) by (intro load_round_trip) (simp_all add: persisted_def)
  moreover have "StorageService_load J (svc m) (ascii ''nextId'') (JNum 1) = JNum (nextId m)"
    using assms(1,3) by (intro load_round_trip) (simp_all add: persisted_def)
  ultimately show ?thesis
    by (simp add: TodoModel_new_def instance_of_def)
qed

lemma trim_A: "trim (ascii ''A'') = ascii ''A''" and trim_B: "trim (ascii ''B'') = ascii ''B''"
  by (simp_all add: trim_def ascii_def white_space_def)

text \<open>
  C5. On a model without todos, over a store that takes every write and a \<open>JSON\<close> that
  reads back the two values written last: after \<open>add("A")\<close>, \<open>add("B")\<close> and
  \<open>toggleComplete\<close> of the id of A, the constructor on that store yields the sequence
  A (completed), B (not completed), in this order, and as \<open>nextId\<close> the increment of
  the id of B, which is the id of B plus one when the ids are in the range where the
  double is exact.
\<close>

theorem round_trip_through_store:
  assumes "todos m = []" and "quota (storage (svc m)) = None"
    and "round_trips J (todos_to_js
           [\<lparr>todo_id = nextId m, todo_text = ascii ''A'', completed = True, createdAt = t1\<rparr>,
            \<lparr>todo_id = js_incr (nextId m), todo_text = ascii ''B'', completed = False,
              createdAt = t2\<rparr>])"
    and "round_trips J (JNum (js_incr (js_incr (nextId m))))"
  shows "(let s = svc (run J [AddTodo t1 (ascii ''A''), AddTodo t2 (ascii ''B''),
                             ToggleComplete (nextId m)] m)
          in TodoModel_new J s
               = (instance_of
                    \<lparr>svc = s,
                     todos =
                       [\<lparr>todo_id = nextId m, todo_text = ascii ''A'', completed = True,
                         createdAt = t1\<rparr>,
                        \<lparr>todo_id = js_incr (nextId m), todo_text = ascii ''B'',
                         completed = False, createdAt = t2\<rparr>],
                     listeners = [], nextId = js_incr (js_incr (nextId m))\<rparr>,
                  []))
         \<and> (- 9007199254740992 \<le> nextId m \<and> nextId m + 1 < 9007199254740992 \<longrightarrow>
              js_incr (nextId m) = nextId m + 1
              \<and> js_incr (js_incr (nextId m)) = (nextId m + 1) + 1)"
proof
  let ?n1 = "js_incr (nextId m)"
  let ?A = "\<lparr>todo_id = nextId m, todo_text = ascii ''A'', completed = False, createdAt = t1\<rparr>"
  let ?B = "\<lparr>todo_id = ?n1, todo_text = ascii ''B'', completed = False, createdAt = t2\<rparr>"
  let ?m1 = "fst (addTodo J t1 (ascii ''A'') m)"
  let ?m2 = "fst (addTodo J t2 (ascii ''B'') ?m1)"
  let ?m3 = "fst (toggleComplete J (nextId m) ?m2)"
  have ne: "ascii ''A'' \<noteq> []" "ascii ''B'' \<noteq> []" by (simp_all add: ascii_def)
  have m1: "?m1 = TodoModel_save J (m\<lparr>nextId := ?n1, todos := [?A]\<rparr>)"
    using assms(1) by (simp add: addTodo_def trim_A ne Let_def)
  have q1: "quota (storage (svc ?m1)) = None"
    unfolding m1 using assms(2) by (simp add: TodoModel_save_unlimited(2))
  have f1: "todos ?m1 = [?A]" "nextId ?m1 = ?n1"
    unfolding m1 by (simp_all add: save_fields)
  have m2: "?m2 = TodoModel_save J (?m1\<lparr>nextId := js_incr ?n1, todos := [?A, ?B]\<rparr>)"
    by (simp add: addTodo_def [of J t2] trim_B ne Let_def f1)
  have q2: "quota (storage (svc ?m2)) = None"
    unfolding m2 using q1 by (simp add: TodoModel_save_unlimited(2))
  have f2: "todos ?m2 = [?A, ?B]" "nextId ?m2 = js_incr ?n1"
    unfolding m2 by (simp_all add: save_fields)
  have m3: "?m3 = TodoModel_save J (?m2\<lparr>todos := [?A\<lparr>completed := True\<rparr>, ?B]\<rparr>)"
    by (simp add: toggleComplete_def [of J "nextId m"] f2 Let_def)
  have p3: "persisted J ?m3"
    unfolding m3 using q2 by (simp add: TodoModel_save_unlimited(1))
  have f3: "todos ?m3 = [?A\<lparr>completed := True\<rparr>, ?B]" "nextId ?m3 = js_incr ?n1"
    unfolding m3 by (simp_all add: save_fields f2)
  have "TodoModel_new J (svc ?m3)
      = (instance_of \<lparr>svc = svc ?m3, todos = todos ?m3, listeners = [], nextId = nextId ?m3\<rparr>, [])"
    using p3 assms(3,4) by (intro reload) (simp_all add: f3)
  then show "let s = svc (run J [AddTodo t1 (ascii ''A''), AddTodo t2 (ascii ''B''),
                             ToggleComplete (nextId m)] m)
          in TodoModel_new J s
               = (instance_of
                    \<lparr>svc = s,
                     todos =
                       [\<lparr>todo_id = nextId m, todo_text = ascii ''A'', completed = True,
                         createdAt = t1\<rparr>,
                        \<lparr>todo_id = js_incr (nextId m), todo_text = ascii ''B'',
                         completed = False, createdAt = t2\<rparr>],
                     listeners = [], nextId = js_incr (js_incr (nextId m))\<rparr>,
                  [])"
    by (simp add: f3 Let_def)
next
  show "- 9007199254740992 \<le> nextId m \<and> nextId m + 1 < 9007199254740992 \<longrightarrow>
      js_incr (nextId m) = nextId m + 1 \<and> js_incr (js_incr (nextId m)) = (nextId m + 1) + 1"
  proof
    assume b: "- 9007199254740992 \<le> nextId m \<and> nextId m + 1 < 9007199254740992"
    then have 1: "js_incr (nextId m) = nextId m + 1" by (intro js_incr_exact) simp_all
    from b have "js_incr (nextId m + 1) = (nextId m + 1) + 1" by (intro js_incr_exact) simp_all
    with 1 show "js_incr (nextId m) = nextId m + 1
        \<and> js_incr (js_incr (nextId m)) = (nextId m + 1) + 1"
      by simp
  qed
qed

theorem round_trip_through_store_witness:
  "todos fresh_model = [] \<and> quota (storage (svc fresh_model)) = None
   \<and> round_trips ref_JSON (todos_to_js
        [\<lparr>todo_id = 1, todo_text = ascii ''A'', completed = True,
          createdAt = ascii ''2025-11-05T10:00:00.000Z''\<rparr>,
         \<lparr>todo_id = 2, todo_text = ascii ''B'', completed = False,
          createdAt = ascii ''2025-11-05T10:00:01.000Z''\<rparr>])
   \<and> round_trips ref_JSON (JNum 3)
   \<and> (let s = svc (run ref_JSON
               [AddTodo (ascii ''2025-11-05T10:00:00.000Z'') (ascii ''A''),
                AddTodo (ascii ''2025-11-05T10:00:01.000Z'') (ascii ''B''), ToggleComplete 1]
               fresh_model)
        in TodoModel_new ref_JSON s
         = (instance_of
              \<lparr>svc = s,
               todos =
                 [\<lparr>todo_id = 1, todo_text = ascii ''A'', completed = True,
                   createdAt = ascii ''2025-11-05T10:00:00.000Z''\<rparr>,
                  \<lparr>todo_id = 2, todo_text = ascii ''B'', completed = False,
                   createdAt = ascii ''2025-11-05T10:00:01.000Z''\<rparr>],
               listeners = [], nextId = 3\<rparr>,
            []))"
proof -
  have n: "nextId fresh_model = 1" and t: "todos fresh_model = []"
    by (simp_all add: fresh_model_def)
  have j: "js_incr 1 = 2" "js_incr 2 = 3" by code_simp+
  have q: "quota (storage (svc fresh_model)) = None"
    by (simp add: fresh_model_def app_service_def StorageService_new_def empty_store_def)
  have r1: "round_trips ref_JSON (todos_to_js
        [\<lparr>todo_id = 1, todo_text = ascii ''A'', completed = True,
          createdAt = ascii ''2025-11-05T10:00:00.000Z''\<rparr>,
         \<lparr>todo_id = 2, todo_text = ascii ''B'', completed = False,
          createdAt = ascii ''2025-11-05T10:00:01.000Z''\<rparr>])"
    by code_simp
  have r2: "round_trips ref_JSON (JNum 3)" by code_simp
  from round_trip_through_store [of fresh_model ref_JSON "ascii ''2025-11-05T10:00:00.000Z''"
      "ascii ''2025-11-05T10:00:01.000Z''"] n t q r1 r2 j
  show ?thesis by (simp add: Let_def)
qed

section \<open>StorageService.load\<close>

text \<open>
  C6. For every key and default value, \<open>load\<close> returns the default value when the
  prefixed key is absent from the store and when \<open>JSON.parse\<close> fails on the stored
  string, and returns the parsed value otherwise. (\<open>JSON.parse\<close> throws on the empty
  string, which is the hypothesis on the platform parameter.)
\<close>

theorem load_default_or_parsed:
  assumes "JSON_parse J [] = None"
  shows "(getItem (storage s) (prefix s @ key) = None \<longrightarrow> StorageService_load J s key d = d)
    \<and> (\<forall>item. getItem (storage s) (prefix s @ key) = Some item \<and> JSON_parse J item = None
          \<longrightarrow> StorageService_load J s key d = d)
    \<and> (\<forall>item v. getItem (storage s) (prefix s @ key) = Some item \<and> JSON_parse J item = Some v
          \<longrightarrow> StorageService_load J s key d = v)"
  using assms by (auto simp: StorageService_load_def)

theorem load_default_or_parsed_witness:
  "JSON_parse ref_JSON [] = None
   \<and> getItem (storage used_service) (prefix used_service @ ascii ''other'') = None
   \<and> StorageService_load ref_JSON used_service (ascii ''other'') (JNum 1) = JNum 1
   \<and> getItem (storage used_service) (prefix used_service @ ascii ''items'') = Some (ascii ''[{'')
   \<and> JSON_parse ref_JSON (ascii ''[{'') = None
   \<and> StorageService_load ref_JSON used_service (ascii ''items'') (JArr []) = JArr []
   \<and> getItem (storage used_service) (prefix used_service @ ascii ''nextId'') = Some (ascii ''7'')
   \<and> JSON_parse ref_JSON (ascii ''7'') = Some (JNum 7)
   \<and> StorageService_load ref_JSON used_service (ascii ''nextId'') (JNum 1) = JNum 7"
proof -
  have p0: "JSON_parse ref_JSON [] = None" by code_simp
  have g1: "getItem (storage used_service) (prefix used_service @ ascii ''other'') = None"
    by code_simp
  have g2: "getItem (storage used_service) (prefix used_service @ ascii ''items'')
      = Some (ascii ''[{'')"
    by code_simp
  have p2: "JSON_parse ref_JSON (ascii ''[{'') = None" by code_simp
  have g3: "getItem (storage used_service) (prefix used_service @ ascii ''nextId'')
      = Some (ascii ''7'')"
    by code_simp
  have p3: "JSON_parse ref_JSON (ascii ''7'') = Some (JNum 7)" by code_simp
  from load_default_or_parsed [OF p0, of used_service "ascii ''other''" "JNum 1"]
    load_default_or_parsed [OF p0, of used_service "ascii ''items''" "JArr []"]
    load_default_or_parsed [OF p0, of used_service "ascii ''nextId''" "JNum 1"]
    p0 g1 g2 p2 g3 p3
  show ?thesis by blast
qed

text \<open>
  C9. When the store maps the prefixed key to the empty string, \<open>load\<close> returns the
  default value although the key is present: \<open>item ? \<dots>\<close> tests the truthiness of the
  string.
\<close>

theorem load_empty_item:
  "getItem (storage s) (prefix s @ key) = Some [] \<Longrightarrow> StorageService_load J s key d = d"
  by (simp add: StorageService_load_def)

theorem load_empty_item_witness:
  "getItem (storage used_service) (prefix used_service @ ascii ''theme'') = Some []
   \<and> StorageService_load ref_JSON used_service (ascii ''theme'') (JStr (ascii ''light''))
       = JStr (ascii ''light'')"
proof -
  have g: "getItem (storage used_service) (prefix used_service @ ascii ''theme'') = Some []"
    by code_simp
  from load_empty_item [OF g, of ref_JSON "JStr (ascii ''light'')"] g
  show ?thesis by blast
qed

section \<open>The constructor\<close>

text \<open>
  C10. The constructor only reads. For every store: the service, and with it the store,
  of the instance is the one that was given (nothing is saved or removed); no subscriber
  is registered and none is called; \<open>todos\<close> and \<open>nextId\<close> are the values that the two
  keys hold in the store, as parsed, whatever their shape, and the empty list and 1 where
  the key is absent (or holds a string that is empty or does not parse).
\<close>

theorem constructor_only_reads:
  "inst_storage (fst (TodoModel_new J s)) = s
   \<and> inst_listeners (fst (TodoModel_new J s)) = []
   \<and> snd (TodoModel_new J s) = []
   \<and> inst_todos (fst (TodoModel_new J s))
       = (case getItem (storage s) (prefix s @ ascii ''items'') of
            None \<Rightarrow> JArr []
          | Some item \<Rightarrow>
              if item = [] then JArr []
              else (case JSON_parse J item of None \<Rightarrow> JArr [] | Some v \<Rightarrow> v))
   \<and> inst_nextId (fst (TodoModel_new J s))
       = (case getItem (storage s) (prefix s @ ascii ''nextId'') of
            None \<Rightarrow> JNum 1
          | Some item \<Rightarrow>
              if item = [] then JNum 1
              else (case JSON_parse J item of None \<Rightarrow> JNum 1 | Some v \<Rightarrow> v))"
  by (simp add: TodoModel_new_def StorageService_load_def split: option.splits)

theorem constructor_only_reads_witness:
  "TodoModel_new ref_JSON foreign_service
     = (\<lparr>inst_storage = foreign_service,
         inst_todos =
           JArr [JObj [(ascii ''text'', JStr (ascii ''x'')), (ascii ''completed'', JBool False),
                       (ascii ''id'', JNum 4)]],
         inst_listeners = [], inst_nextId = JNull\<rparr>, [])
   \<and> TodoModel_new ref_JSON null_service
     = (\<lparr>inst_storage = null_service, inst_todos = JNull, inst_listeners = [],
         inst_nextId = JNum 1\<rparr>, [])
   \<and> TodoModel_new ref_JSON app_service = (instance_of fresh_model, [])"
proof -
  have g: "getItem (storage foreign_service) (prefix foreign_service @ ascii ''items'')
        = Some (ascii ''[{\"text\":\"x\",\"completed\":false,\"id\":4}]'')"
    "getItem (storage foreign_service) (prefix foreign_service @ ascii ''nextId'')
        = Some (ascii ''null'')"
    "getItem (storage null_service) (prefix null_service @ ascii ''items'') = Some (ascii ''null'')"
    "getItem (storage null_service) (prefix null_service @ ascii ''nextId'') = None"
    "getItem (storage app_service) (prefix app_service @ ascii ''items'') = None"
    "getItem (storage app_service) (prefix app_service @ ascii ''nextId'') = None"
    by code_simp+
  have p: "JSON_parse ref_JSON (ascii ''[{\"text\":\"x\",\"completed\":false,\"id\":4}]'')
        = Some (JArr [JObj [(ascii ''text'', JStr (ascii ''x'')), (ascii ''completed'', JBool False),
                       (ascii ''id'', JNum 4)]])"
    "JSON_parse ref_JSON (ascii ''null'') = Some JNull"
    by code_simp+
  have e: "ascii ''[{\"text\":\"x\",\"completed\":false,\"id\":4}]'' \<noteq> []" "ascii ''null'' \<noteq> []"
    by (simp_all add: ascii_def)
  have f: "instance_of fresh_model
      = \<lparr>inst_storage = app_service, inst_todos = JArr [], inst_listeners = [],
         inst_nextId = JNum 1\<rparr>"
    by (simp add: instance_of_def fresh_model_def todos_to_js_def)
  have eq: "x = (a, b) \<longleftrightarrow> fst x = a \<and> snd x = b" for x :: "Instance \<times> listener list" and a b
    by auto
  have i: "i = \<lparr>inst_storage = a, inst_todos = b, inst_listeners = c, inst_nextId = d\<rparr>
      \<longleftrightarrow> inst_storage i = a \<and> inst_todos i = b \<and> inst_listeners i = c \<and> inst_nextId i = d"
    for i a b c d
    by (cases i) auto
  from constructor_only_reads [of ref_JSON foreign_service]
    constructor_only_reads [of ref_JSON null_service]
    constructor_only_reads [of ref_JSON app_service]
  show ?thesis
    unfolding f eq i by (simp add: g p e)
qed

section \<open>Notification of the subscribers\<close>

lemma watched_model_eval:
  "listeners watched_model = [7]"
  "todos watched_model
     = [\<lparr>todo_id = 1, todo_text = ascii ''Test todo'', completed = False,
         createdAt = ascii ''2025-11-05T10:00:00.000Z''\<rparr>]"
  by code_simp+

text \<open>
  C4, as amended. \<open>deleteTodo\<close>, \<open>clearCompleted\<close> and \<open>clearAll\<close> call every
  registered subscriber exactly once per call, in the order of subscription, also when
  the call changed nothing (the delete of an unknown id). \<open>addTodo\<close>, \<open>toggleComplete\<close>
  and \<open>updateTodo\<close> do so when they change the model, and call no subscriber when they
  return early: on a blank text, on an unknown id.
\<close>

theorem subscribers_called_once:
  "snd (deleteTodo J i m) = listeners m
   \<and> snd (clearCompleted J m) = listeners m
   \<and> snd (clearAll J m) = listeners m
   \<and> snd (addTodo J now text m) = (if trim text = [] then [] else listeners m)
   \<and> snd (toggleComplete J i m) = (if i \<in> todo_id ` set (todos m) then listeners m else [])
   \<and> snd (updateTodo J i newText m)
       = (if i \<in> todo_id ` set (todos m) \<and> trim newText \<noteq> [] then listeners m else [])"
proof -
  have t: "trim s \<noteq> [] \<Longrightarrow> s \<noteq> []" for s by (auto simp: trim_def)
  have f: "find (\<lambda>t. todo_id t = i) (todos m) = None \<longleftrightarrow> i \<notin> todo_id ` set (todos m)"
    by (rule find_None_iff_id)
  show ?thesis
    using t [of "text"] t [of newText] f
    by (auto simp: deleteTodo_def clearCompleted_def clearAll_def addTodo_def toggleComplete_def
        updateTodo_def notify_def Let_def save_fields split: option.splits)
qed

theorem subscribers_called_once_witness:
  "snd (deleteTodo ref_JSON 999 watched_model) = [7]
   \<and> snd (toggleComplete ref_JSON 1 watched_model) = [7]
   \<and> snd (toggleComplete ref_JSON 999 watched_model) = []
   \<and> snd (updateTodo ref_JSON 1 (ascii '' X '') watched_model) = [7]
   \<and> snd (addTodo ref_JSON (ascii ''2025-11-05T10:00:01.000Z'') (ascii ''   '') watched_model) = []"
proof -
  have a: "trim (ascii ''   '') = []" and b: "trim (ascii '' X '') \<noteq> []"
    by (simp_all add: trim_def ascii_def white_space_def)
  have i: "(1::int) \<in> todo_id ` set (todos watched_model)"
    "(999::int) \<notin> todo_id ` set (todos watched_model)"
    unfolding watched_model_eval by simp_all
  from subscribers_called_once [of ref_JSON 999 watched_model "ascii ''2025-11-05T10:00:01.000Z''"
      "ascii ''   ''" "ascii '' X ''"]
    subscribers_called_once [of ref_JSON 1 watched_model "ascii ''2025-11-05T10:00:01.000Z''"
      "ascii ''   ''" "ascii '' X ''"]
    a b i
  show ?thesis by (simp add: watched_model_eval)
qed

text \<open>
  The claim as it stands, every mutating call calling every subscriber once, fails on the
  guarded calls: with the subscriber 7 registered, a toggle of the unknown id 999, an add
  of a blank text and an update to the empty text call nobody.
\<close>

theorem notify_every_call_counterexample:
  "listeners watched_model = [7]
   \<and> snd (toggleComplete ref_JSON 999 watched_model) = []
   \<and> snd (addTodo ref_JSON (ascii ''2025-11-05T10:00:01.000Z'') (ascii ''   '') watched_model) = []
   \<and> snd (updateTodo ref_JSON 1 (ascii '''') watched_model) = []"
  by code_simp

section \<open>The import\<close>

text \<open>
  C3. The model has no import operation. With one todo in the model, the import of a file
  that holds the JSON text of the empty array, confirmed in the dialog, ends in the
  failure alert and leaves the todo, the store and the subscribers as they were.
\<close>

theorem import_fails:
  "JSON_parse ref_JSON (ascii ''[]'') = Some (JArr [])
   \<and> onload ref_JSON True (ascii ''[]'') watched_model = ((watched_model, []), Some ImportFailed)
   \<and> length (todos watched_model) = 1"
proof -
  have p: "JSON_parse ref_JSON (ascii ''[]'') = Some (JArr [])" by code_simp
  show ?thesis
    by (simp add: onload_def p call_importTasks_def watched_model_eval)
qed


end
